theory Spec2Isabelle
  imports Complex_Main
begin

section \<open>Python values\<close>

text \<open>
  The script \<^verbatim>\<open>apps/bridge/scripts/generate_avatar.py\<close> receives its parameters as the
  result of \<^verbatim>\<open>json.loads\<close>: \<^verbatim>\<open>None\<close>, booleans, unbounded integers, floats, strings,
  lists and dictionaries. A float is only stored, tested for truth or handed to
  \<^verbatim>\<open>math.radians\<close>; it is represented by the number it denotes, with the three special
  values that \<^verbatim>\<open>json.loads\<close> accepts. A dictionary is an association list in insertion
  order; a lookup takes the first entry of a key.
\<close>

datatype pyfloat = Finite real | PosInf | NegInf | NaN

datatype pyval =
    PNone
  | PBool bool
  | PInt int
  | PFloat pyfloat
  | PStr string
  | PList "pyval list"
  | PDict "(string \<times> pyval) list"

datatype pyerr = KeyError string | TypeError | AttributeError | OverflowError

text \<open>\<^verbatim>\<open>d[k]\<close> with a string key: only a dictionary can answer, and only for a key it has.\<close>

fun subscript :: "pyval \<Rightarrow> string \<Rightarrow> pyerr + pyval" where
  "subscript (PDict kvs) k =
     (case map_of kvs k of None \<Rightarrow> Inl (KeyError k) | Some v \<Rightarrow> Inr v)"
| "subscript _ k = Inl TypeError"

text \<open>The truth value Python gives a value in \<^verbatim>\<open>if v:\<close>.\<close>

fun truthy :: "pyval \<Rightarrow> bool" where
  "truthy PNone = False"
| "truthy (PBool b) = b"
| "truthy (PInt n) = (n \<noteq> 0)"
| "truthy (PFloat f) = (f \<noteq> Finite 0)"
| "truthy (PStr s) = (s \<noteq> [])"
| "truthy (PList xs) = (xs \<noteq> [])"
| "truthy (PDict kvs) = (kvs \<noteq> [])"

text \<open>
  The elements a value yields when it is iterated (\<^verbatim>\<open>for x in v\<close>, \<^verbatim>\<open>*v\<close>): a list its
  elements, a string its characters, a dictionary its keys; anything else is not iterable.
\<close>

fun py_iter :: "pyval \<Rightarrow> pyerr + pyval list" where
  "py_iter (PList xs) = Inr xs"
| "py_iter (PStr s) = Inr (map (\<lambda>c. PStr [c]) s)"
| "py_iter (PDict kvs) = Inr (map (\<lambda>kv. PStr (fst kv)) kvs)"
| "py_iter _ = Inl TypeError"

text \<open>\<^verbatim>\<open>v == 'literal'\<close>: a value equals a string literal only if it is that string.\<close>

definition py_eq_str :: "pyval \<Rightarrow> string \<Rightarrow> bool" where
  "py_eq_str v s = (v = PStr s)"

section \<open>Values held by the host engine\<close>

text \<open>
  What the script hands to the engine: a Python value, the float computed by
  \<^verbatim>\<open>math.radians\<close> from a number (kept symbolic: no floating-point arithmetic is modelled),
  a list or tuple of such values, or a reference to an engine object.
\<close>

datatype evalue =
    Py pyval
  | Radians pyval
  | EList "evalue list"
  | ETuple "evalue list"
  | ObjRef nat

text \<open>
  \<^verbatim>\<open>math.radians(x)\<close> converts its argument to a float first: a boolean, an integer or a
  float is accepted, an integer that rounds beyond the largest double raises
  OverflowError, anything else raises TypeError.
\<close>

fun math_radians :: "pyval \<Rightarrow> pyerr + evalue" where
  "math_radians (PBool b) = Inr (Radians (PBool b))"
| "math_radians (PInt n) =
     (if \<bar>n\<bar> \<ge> 2 ^ 1024 - 2 ^ 970 then Inl OverflowError else Inr (Radians (PInt n)))"
| "math_radians (PFloat f) = Inr (Radians (PFloat f))"
| "math_radians _ = Inl TypeError"

fun radians_all :: "pyval list \<Rightarrow> pyerr + evalue list" where
  "radians_all [] = Inr []"
| "radians_all (x # xs) =
     (case math_radians x of
        Inl e \<Rightarrow> Inl e
      | Inr a \<Rightarrow> (case radians_all xs of Inl e \<Rightarrow> Inl e | Inr as \<Rightarrow> Inr (a # as)))"

section \<open>The host engine as a recorder of requests\<close>

text \<open>
  The engine (\<^verbatim>\<open>bpy\<close>) is not part of the repository. It is modelled as the data it is
  asked to hold: every request on an existing handle succeeds and is recorded as given
  (names, property values and operator arguments are stored unchanged). Objects carry an
  identifier that is never reused; a material or a node is named by its position.
\<close>

record node =
  node_type :: string
  inputs :: "string \<rightharpoonup> evalue"

record material =
  mat_name :: string
  use_nodes :: bool
  nodes :: "node list"
  links :: "((nat \<times> string) \<times> (nat \<times> string)) list"

record modifier =
  mod_name :: string
  mod_type :: string
  mod_props :: "string \<rightharpoonup> evalue"
  psys_settings :: "string \<rightharpoonup> evalue"

record object =
  created_by :: string
  op_args :: "string \<rightharpoonup> evalue"
  selected :: bool
  obj_props :: "string \<rightharpoonup> evalue"
  data_props :: "string \<rightharpoonup> evalue"
  modifiers :: "modifier list"
  material_slots :: "nat list"

record scene =
  objects :: "(nat \<times> object) list"
  next_id :: nat
  active :: "nat option"
  materials :: "material list"
  camera :: "nat option"
  render :: "string \<rightharpoonup> evalue"

text \<open>Statements of the script: they change the engine and either return or raise.\<close>

type_synonym 'a py = "scene \<Rightarrow> (pyerr + 'a) \<times> scene"

definition py_return :: "'a \<Rightarrow> 'a py" where
  "py_return a s = (Inr a, s)"

definition py_raise :: "pyerr \<Rightarrow> 'a py" where
  "py_raise e s = (Inl e, s)"

definition py_bind :: "'a py \<Rightarrow> ('a \<Rightarrow> 'b py) \<Rightarrow> 'b py" where
  "py_bind m f s = (case m s of (Inl e, s') \<Rightarrow> (Inl e, s') | (Inr a, s') \<Rightarrow> f a s')"

definition py_then :: "unit py \<Rightarrow> 'b py \<Rightarrow> 'b py" where
  "py_then m k = py_bind m (\<lambda>_. k)"

definition lift :: "pyerr + 'a \<Rightarrow> 'a py" where
  "lift r s = (r, s)"

definition act :: "(scene \<Rightarrow> scene) \<Rightarrow> unit py" where
  "act f s = (Inr (), f s)"

text \<open>An attribute access on \<^verbatim>\<open>bpy.context.active_object\<close>: on \<^verbatim>\<open>None\<close> it raises.\<close>

definition deref :: "nat option \<Rightarrow> nat py" where
  "deref h = (case h of None \<Rightarrow> py_raise AttributeError | Some i \<Rightarrow> py_return i)"

definition upd_at :: "nat \<Rightarrow> ('a \<Rightarrow> 'a) \<Rightarrow> 'a list \<Rightarrow> 'a list" where
  "upd_at i f xs = (if i < length xs then xs[i := f (xs ! i)] else xs)"

definition upd_assoc ::
  "nat \<Rightarrow> (object \<Rightarrow> object) \<Rightarrow> (nat \<times> object) list \<Rightarrow> (nat \<times> object) list" where
  "upd_assoc i f obs = map (\<lambda>(j, ob). if j = i then (j, f ob) else (j, ob)) obs"

definition upd_obj :: "nat \<Rightarrow> (object \<Rightarrow> object) \<Rightarrow> scene \<Rightarrow> scene" where
  "upd_obj i f s = s\<lparr>objects := upd_assoc i f (objects s)\<rparr>"

definition set_selection :: "bool \<Rightarrow> (nat \<times> object) list \<Rightarrow> (nat \<times> object) list" where
  "set_selection b obs = map (\<lambda>(j, ob). (j, ob\<lparr>selected := b\<rparr>)) obs"

definition upd_mat :: "nat \<Rightarrow> (material \<Rightarrow> material) \<Rightarrow> scene \<Rightarrow> scene" where
  "upd_mat m f s = s\<lparr>materials := upd_at m f (materials s)\<rparr>"

subsection \<open>Materials and their node trees\<close>

text \<open>\<^verbatim>\<open>bpy.data.materials.new(name=...)\<close>: a new material without nodes.\<close>

definition materials_new :: "string \<Rightarrow> nat py" where
  "materials_new name s =
     (Inr (length (materials s)),
      s\<lparr>materials := materials s @
          [\<lparr>mat_name = name, use_nodes = False, nodes = [], links = []\<rparr>]\<rparr>)"

text \<open>
  \<^verbatim>\<open>mat.use_nodes = True\<close>: the engine gives the material its default tree, a principled
  shader linked to a material output.
\<close>

definition set_use_nodes :: "nat \<Rightarrow> unit py" where
  "set_use_nodes m =
     act (upd_mat m (\<lambda>mt. mt\<lparr>use_nodes := True,
       nodes := [\<lparr>node_type = ''ShaderNodeBsdfPrincipled'', inputs = Map.empty\<rparr>,
                 \<lparr>node_type = ''ShaderNodeOutputMaterial'', inputs = Map.empty\<rparr>],
       links := [((0, ''BSDF''), (1, ''Surface''))]\<rparr>))"

definition nodes_clear :: "nat \<Rightarrow> unit py" where
  "nodes_clear m = act (upd_mat m (\<lambda>mt. mt\<lparr>nodes := [], links := []\<rparr>))"

definition nodes_new :: "nat \<Rightarrow> string \<Rightarrow> nat py" where
  "nodes_new m ty s =
     (Inr (case drop m (materials s) of [] \<Rightarrow> 0 | mt # _ \<Rightarrow> length (nodes mt)),
      upd_mat m (\<lambda>mt. mt\<lparr>nodes := nodes mt @ [\<lparr>node_type = ty, inputs = Map.empty\<rparr>]\<rparr>) s)"

definition links_new :: "nat \<Rightarrow> nat \<times> string \<Rightarrow> nat \<times> string \<Rightarrow> unit py" where
  "links_new m src dst = act (upd_mat m (\<lambda>mt. mt\<lparr>links := links mt @ [(src, dst)]\<rparr>))"

text \<open>\<^verbatim>\<open>node.inputs[name].default_value = v\<close>.\<close>

definition set_input :: "nat \<Rightarrow> nat \<Rightarrow> string \<Rightarrow> evalue \<Rightarrow> unit py" where
  "set_input m n name v =
     act (upd_mat m (\<lambda>mt. mt\<lparr>nodes :=
       upd_at n (\<lambda>nd. nd\<lparr>inputs := (inputs nd)(name \<mapsto> v)\<rparr>) (nodes mt)\<rparr>))"

section \<open>Material synthesis\<close>

text \<open>\<^verbatim>\<open>create_material(params)\<close>, lines 12 to 40; it returns the handle of the new material.\<close>

definition create_material :: "pyval \<Rightarrow> nat py" where
  "create_material params =
     py_bind (materials_new ''AvatarMaterial'') (\<lambda>mat.
     py_then (set_use_nodes mat) (
     py_then (nodes_clear mat) (
     py_bind (nodes_new mat ''ShaderNodeOutputMaterial'') (\<lambda>output.
     py_bind (nodes_new mat ''ShaderNodeBsdfPrincipled'') (\<lambda>shader.
     py_then (links_new mat (shader, ''BSDF'') (output, ''Surface'')) (
     py_bind (lift (subscript params ''color'')) (\<lambda>color.
     py_then (set_input mat shader ''Base Color'' (Py color)) (
     py_bind (lift (subscript params ''roughness'')) (\<lambda>rough.
     py_then (set_input mat shader ''Roughness'' (Py rough)) (
     py_then
       (py_bind (lift (subscript params ''type'')) (\<lambda>t1.
          if py_eq_str t1 ''metallic'' then
            set_input mat shader ''Metallic'' (Py (PFloat (Finite 1)))
          else
            py_bind (lift (subscript params ''type'')) (\<lambda>t2.
              if py_eq_str t2 ''glass'' then
                py_then (set_input mat shader ''Transmission'' (Py (PFloat (Finite 1))))
                        (set_input mat shader ''Roughness'' (Py (PFloat (Finite 0))))
              else
                py_bind (lift (subscript params ''type'')) (\<lambda>t3.
                  if py_eq_str t3 ''emissive'' then
                    py_then (set_input mat shader ''Emission'' (Py color))
                            (set_input mat shader ''Emission Strength'' (Py (PFloat (Finite 5))))
                  else py_return ()))))
       (py_return mat)))))))))))"


subsection \<open>Objects, modifiers and the active object\<close>

text \<open>
  An operator that adds an object (\<^verbatim>\<open>bpy.ops.mesh.primitive_..._add\<close>,
  \<^verbatim>\<open>bpy.ops.object.light_add\<close>, \<^verbatim>\<open>bpy.ops.object.camera_add\<close>) creates it from its keyword
  arguments, makes it the only selected object and the active one.
\<close>

definition add_object :: "string \<Rightarrow> (string \<rightharpoonup> evalue) \<Rightarrow> unit py" where
  "add_object opn args =
     act (\<lambda>s. s\<lparr>objects :=
                   set_selection False (objects s) @
                   [(next_id s,
                     \<lparr>created_by = opn, op_args = args, selected = True,
                      obj_props = Map.empty, data_props = Map.empty,
                      modifiers = [], material_slots = []\<rparr>)],
                 next_id := Suc (next_id s),
                 active := Some (next_id s)\<rparr>)"

text \<open>\<^verbatim>\<open>bpy.context.active_object\<close> and \<^verbatim>\<open>bpy.context.object\<close>: the active object or \<^verbatim>\<open>None\<close>.\<close>

definition context_active_object :: "nat option py" where
  "context_active_object s = (Inr (active s), s)"

text \<open>\<^verbatim>\<open>bpy.ops.object.select_all(action='SELECT')\<close> and \<^verbatim>\<open>bpy.ops.object.delete()\<close>.\<close>

definition select_all :: "unit py" where
  "select_all =
     act (\<lambda>s. s\<lparr>objects := set_selection True (objects s)\<rparr>)"

definition still_there :: "(nat \<times> object) list \<Rightarrow> nat option \<Rightarrow> nat option" where
  "still_there obs h =
     (case h of None \<Rightarrow> None
      | Some i \<Rightarrow> if i \<in> set (map fst obs) then Some i else None)"

definition object_delete :: "unit py" where
  "object_delete =
     act (\<lambda>s. let kept = filter (\<lambda>(j, ob). \<not> selected ob) (objects s)
               in s\<lparr>objects := kept,
                    active := still_there kept (active s),
                    camera := still_there kept (camera s)\<rparr>)"

text \<open>\<^verbatim>\<open>obj.modifiers.new(name, type)\<close> appends a modifier and returns it (its position).\<close>

definition modifiers_new :: "nat \<Rightarrow> string \<Rightarrow> string \<Rightarrow> nat py" where
  "modifiers_new i name ty s =
     (Inr (case map_of (objects s) i of None \<Rightarrow> 0 | Some ob \<Rightarrow> length (modifiers ob)),
      upd_obj i (\<lambda>ob. ob\<lparr>modifiers := modifiers ob @
          [\<lparr>mod_name = name, mod_type = ty, mod_props = Map.empty,
            psys_settings = Map.empty\<rparr>]\<rparr>) s)"

text \<open>\<^verbatim>\<open>obj.modifiers[name]\<close>: the first modifier of that name, KeyError if there is none.\<close>

fun index_named :: "string \<Rightarrow> modifier list \<Rightarrow> nat option" where
  "index_named name [] = None"
| "index_named name (m # ms) =
     (if mod_name m = name then Some 0 else map_option Suc (index_named name ms))"

definition modifier_named :: "nat \<Rightarrow> string \<Rightarrow> nat py" where
  "modifier_named i name s =
     (case map_of (objects s) i of
        None \<Rightarrow> (Inl (KeyError name), s)
      | Some ob \<Rightarrow>
          (case index_named name (modifiers ob) of
             None \<Rightarrow> (Inl (KeyError name), s)
           | Some k \<Rightarrow> (Inr k, s)))"

definition set_mod_prop :: "nat \<Rightarrow> nat \<Rightarrow> string \<Rightarrow> evalue \<Rightarrow> unit py" where
  "set_mod_prop i k name v =
     act (upd_obj i (\<lambda>ob. ob\<lparr>modifiers :=
       upd_at k (\<lambda>md. md\<lparr>mod_props := (mod_props md)(name \<mapsto> v)\<rparr>) (modifiers ob)\<rparr>))"

text \<open>\<^verbatim>\<open>psys.settings.name = v\<close> for the particle system of modifier \<open>k\<close> of object \<open>i\<close>.\<close>

definition set_psys :: "nat \<Rightarrow> nat \<Rightarrow> string \<Rightarrow> evalue \<Rightarrow> unit py" where
  "set_psys i k name v =
     act (upd_obj i (\<lambda>ob. ob\<lparr>modifiers :=
       upd_at k (\<lambda>md. md\<lparr>psys_settings := (psys_settings md)(name \<mapsto> v)\<rparr>) (modifiers ob)\<rparr>))"

definition set_obj_prop :: "nat \<Rightarrow> string \<Rightarrow> evalue \<Rightarrow> unit py" where
  "set_obj_prop i name v = act (upd_obj i (\<lambda>ob. ob\<lparr>obj_props := (obj_props ob)(name \<mapsto> v)\<rparr>))"

text \<open>\<^verbatim>\<open>obj.data.name = v\<close>.\<close>

definition set_data_prop :: "nat \<Rightarrow> string \<Rightarrow> evalue \<Rightarrow> unit py" where
  "set_data_prop i name v =
     act (upd_obj i (\<lambda>ob. ob\<lparr>data_props := (data_props ob)(name \<mapsto> v)\<rparr>))"

text \<open>\<^verbatim>\<open>obj.data.materials.append(mat)\<close>.\<close>

definition materials_append :: "nat \<Rightarrow> nat \<Rightarrow> unit py" where
  "materials_append i m =
     act (upd_obj i (\<lambda>ob. ob\<lparr>material_slots := material_slots ob @ [m]\<rparr>))"

definition set_scene_camera :: "nat option \<Rightarrow> unit py" where
  "set_scene_camera h = act (\<lambda>s. s\<lparr>camera := h\<rparr>)"

definition set_render :: "string \<Rightarrow> evalue \<Rightarrow> unit py" where
  "set_render name v = act (\<lambda>s. s\<lparr>render := (render s)(name \<mapsto> v)\<rparr>)"

section \<open>The builders\<close>

text \<open>\<^verbatim>\<open>clean_scene()\<close>, lines 8 to 10.\<close>

definition clean_scene :: "unit py" where
  "clean_scene = py_then select_all object_delete"

text \<open>
  \<^verbatim>\<open>create_geometry(params, material)\<close>, lines 42 to 67. The result is the active object
  after the branch on the type, so \<^verbatim>\<open>None\<close> when there is none.
\<close>

definition create_geometry :: "pyval \<Rightarrow> nat \<Rightarrow> nat option py" where
  "create_geometry params material =
     py_bind (lift (subscript params ''type'')) (\<lambda>geo_type.
     py_then
       (if py_eq_str geo_type ''icosahedron'' then
          py_bind (lift (subscript params ''subdivisions'')) (\<lambda>sub.
            add_object ''mesh.primitive_ico_sphere_add'' [''subdivisions'' \<mapsto> Py sub])
        else if py_eq_str geo_type ''torus'' then
          add_object ''mesh.primitive_torus_add'' Map.empty
        else if py_eq_str geo_type ''cube'' then
          py_then (add_object ''mesh.primitive_cube_add'' Map.empty) (
          py_bind context_active_object (\<lambda>h1.
          py_bind (deref h1) (\<lambda>cube1.
          py_bind (modifiers_new cube1 ''Subsurf'' ''SUBSURF'') (\<lambda>_.
          py_bind (lift (subscript params ''subdivisions'')) (\<lambda>sub.
          py_bind context_active_object (\<lambda>h2.
          py_bind (deref h2) (\<lambda>cube2.
          py_bind (modifier_named cube2 ''Subsurf'') (\<lambda>md.
            set_mod_prop cube2 md ''levels'' (Py sub)))))))))
        else if py_eq_str geo_type ''sphere'' then
          add_object ''mesh.primitive_uv_sphere_add'' Map.empty
        else py_return ())
       (py_bind context_active_object (\<lambda>obj.
        py_then
          (py_bind (lift (subscript params ''wireframe'')) (\<lambda>wire.
             if truthy wire then
               py_bind (deref obj) (\<lambda>ob.
               py_bind (modifiers_new ob ''Wireframe'' ''WIREFRAME'') (\<lambda>md.
                 set_mod_prop ob md ''thickness'' (Py (PFloat (Finite (2 / 100))))))
             else py_return ()))
          (py_then
             (case obj of None \<Rightarrow> py_return () | Some ob \<Rightarrow> materials_append ob material)
             (py_return obj)))))"

text \<open>\<^verbatim>\<open>setup_lighting()\<close>, lines 69 to 85.\<close>

definition setup_lighting :: "unit py" where
  "setup_lighting =
     py_then (add_object ''object.light_add''
                [''type'' \<mapsto> Py (PStr ''AREA''),
                 ''location'' \<mapsto> ETuple [Py (PInt 5), Py (PInt 5), Py (PInt 5)]]) (
     py_bind context_active_object (\<lambda>h1.
     py_bind (deref h1) (\<lambda>key.
     py_then (set_data_prop key ''energy'' (Py (PInt 500))) (
     py_then (add_object ''object.light_add''
                [''type'' \<mapsto> Py (PStr ''POINT''),
                 ''location'' \<mapsto> ETuple [Py (PInt (- 5)), Py (PInt (- 5)), Py (PInt 2)]]) (
     py_bind context_active_object (\<lambda>h2.
     py_bind (deref h2) (\<lambda>fill.
     py_then (set_data_prop fill ''energy'' (Py (PInt 200))) (
     py_then (set_data_prop fill ''color''
                (ETuple [Py (PFloat (Finite 0)), Py (PFloat (Finite (5 / 10))),
                         Py (PFloat (Finite 1))])) (
     py_then (add_object ''object.light_add''
                [''type'' \<mapsto> Py (PStr ''SPOT''),
                 ''location'' \<mapsto> ETuple [Py (PInt 0), Py (PInt 5), Py (PInt (- 5))]]) (
     py_bind context_active_object (\<lambda>h3.
     py_bind (deref h3) (\<lambda>rim.
     py_then (set_data_prop rim ''energy'' (Py (PInt 1000))) (
     py_bind (lift (math_radians (PInt 135))) (\<lambda>a.
       set_obj_prop rim ''rotation_euler'' (ETuple [a, Py (PInt 0), Py (PInt 0)])))))))))))))))"

text \<open>\<^verbatim>\<open>setup_camera()\<close>, lines 87 to 91.\<close>

definition setup_camera :: "unit py" where
  "setup_camera =
     py_then (add_object ''object.camera_add''
                [''location'' \<mapsto> ETuple [Py (PInt 0), Py (PInt (- 8)), Py (PInt 4)]]) (
     py_bind context_active_object (\<lambda>cam.
     py_bind (lift (math_radians (PInt 60))) (\<lambda>a.
     py_bind (deref cam) (\<lambda>c.
     py_then (set_obj_prop c ''rotation_euler'' (ETuple [a, Py (PInt 0), Py (PInt 0)])) (
       set_scene_camera cam)))))"

text \<open>\<^verbatim>\<open>create_particles(params)\<close>, lines 93 to 124.\<close>

definition create_particles :: "pyval \<Rightarrow> unit py" where
  "create_particles params =
     py_then (add_object ''mesh.primitive_plane_add''
                [''size'' \<mapsto> Py (PInt 10),
                 ''location'' \<mapsto> ETuple [Py (PInt 0), Py (PInt 0), Py (PInt 0)]]) (
     py_bind context_active_object (\<lambda>h1.
     py_bind (deref h1) (\<lambda>emitter.
     py_then (set_obj_prop emitter ''hide_render'' (Py (PBool True))) (
     py_bind (modifiers_new emitter ''Particles'' ''PARTICLE_SYSTEM'') (\<lambda>psys.
     py_bind (lift (subscript params ''particleCount'')) (\<lambda>cnt.
     py_then (set_psys emitter psys ''count'' (Py cnt)) (
     py_then (set_psys emitter psys ''frame_start'' (Py (PInt 1))) (
     py_then (set_psys emitter psys ''frame_end'' (Py (PInt 1))) (
     py_then (set_psys emitter psys ''lifetime'' (Py (PInt 100))) (
     py_then (set_psys emitter psys ''physics_type'' (Py (PStr ''NO''))) (
     py_then (add_object ''mesh.primitive_ico_sphere_add''
                [''radius'' \<mapsto> Py (PFloat (Finite (1 / 10)))]) (
     py_bind context_active_object (\<lambda>h2.
     py_bind (deref h2) (\<lambda>particle_obj.
     py_then (set_obj_prop particle_obj ''hide_render'' (Py (PBool True))) (
     py_bind (materials_new ''ParticleMat'') (\<lambda>mat.
     py_then (set_use_nodes mat) (
     py_then (nodes_clear mat) (
     py_bind (nodes_new mat ''ShaderNodeOutputMaterial'') (\<lambda>out.
     py_bind (nodes_new mat ''ShaderNodeEmission'') (\<lambda>emit.
     py_bind (lift (subscript params ''particleColor'')) (\<lambda>pc.
     py_bind (lift (py_iter pc)) (\<lambda>comps.
     py_then (set_input mat emit ''Color''
                (ETuple (map Py comps @ [Py (PFloat (Finite 1))]))) (
     py_then (set_input mat emit ''Strength'' (Py (PFloat (Finite 10)))) (
     py_then (links_new mat (emit, ''Emission'') (out, ''Surface'')) (
     py_then (materials_append particle_obj mat) (
     py_then (set_psys emitter psys ''render_type'' (Py (PStr ''OBJECT''))) (
       set_psys emitter psys ''instance_object'' (ObjRef particle_obj))))))))))))))))))))))))))))"

section \<open>The entry point\<close>

text \<open>
  Lines 148 to 171 of \<^verbatim>\<open>main()\<close>: everything between the parsing of the parameters and
  the save. The transform is read only when \<^verbatim>\<open>create_geometry\<close> returned an object.
\<close>

definition build_scene :: "pyval \<Rightarrow> unit py" where
  "build_scene params =
     py_then clean_scene (
     py_bind (lift (subscript params ''material'')) (\<lambda>mp.
     py_bind (create_material mp) (\<lambda>mat.
     py_bind (lift (subscript params ''geometry'')) (\<lambda>gp.
     py_bind (create_geometry gp mat) (\<lambda>obj.
     py_then
       (case obj of
          None \<Rightarrow> py_return ()
        | Some ob \<Rightarrow>
            py_bind (lift (subscript params ''transform'')) (\<lambda>t1.
            py_bind (lift (subscript t1 ''rotation'')) (\<lambda>rot.
            py_bind (lift (py_iter rot)) (\<lambda>xs.
            py_bind (lift (radians_all xs)) (\<lambda>angles.
            py_then (set_obj_prop ob ''rotation_euler'' (EList angles)) (
            py_bind (lift (subscript params ''transform'')) (\<lambda>t2.
            py_bind (lift (subscript t2 ''scale'')) (\<lambda>sc.
              set_obj_prop ob ''scale'' (ETuple [Py sc, Py sc, Py sc])))))))))
       (py_then setup_lighting (
        py_then setup_camera (
        py_bind (lift (subscript params ''environment'')) (\<lambda>ep.
        py_then (create_particles ep) (
        py_then (set_render ''render.engine'' (Py (PStr ''CYCLES''))) (
        py_then (set_render ''cycles.samples'' (Py (PInt 32))) (
        py_then (set_render ''render.resolution_x'' (Py (PInt 1024))) (
        py_then (set_render ''render.resolution_y'' (Py (PInt 1024))) (
          set_render ''render.film_transparent'' (Py (PBool True))))))))))))))))"

text \<open>
  The process around the script. \<^verbatim>\<open>argparse\<close> and \<^verbatim>\<open>json.loads\<close> belong to the Python
  library and are parameters: \<open>parse_args\<close> either ends the process with a status (a
  missing option, \<^verbatim>\<open>--help\<close>) or yields the values of \<^verbatim>\<open>--output\<close> and \<^verbatim>\<open>--params\<close>;
  \<open>loads\<close> yields \<open>None\<close> where \<^verbatim>\<open>json.loads\<close> raises JSONDecodeError.
\<close>

record stdlib =
  parse_args :: "string list \<Rightarrow> nat + (string \<times> string)"
  loads :: "string \<Rightarrow> pyval option"

record world =
  engine :: scene
  files :: "string \<rightharpoonup> scene"

datatype outcome = Returned | Exited nat | Raised pyerr

record run =
  printed :: "string list"
  outcome :: outcome
  final :: world

text \<open>\<^verbatim>\<open>main()\<close>, lines 126 to 174. \<^verbatim>\<open>bpy.ops.wm.save_as_mainfile\<close> writes the scene to the path.\<close>

definition main :: "stdlib \<Rightarrow> string list \<Rightarrow> world \<Rightarrow> run" where
  "main lib argv w =
     (if ''--'' \<notin> set argv then
        \<lparr>printed = [''No arguments passed after --''], outcome = Returned, final = w\<rparr>
      else
        (case parse_args lib (tl (dropWhile (\<lambda>a. a \<noteq> ''--'') argv)) of
           Inl status \<Rightarrow> \<lparr>printed = [], outcome = Exited status, final = w\<rparr>
         | Inr (output, payload) \<Rightarrow>
             (case loads lib payload of
                None \<Rightarrow> \<lparr>printed = [''Invalid JSON params''], outcome = Exited 1, final = w\<rparr>
              | Some params \<Rightarrow>
                  (case build_scene params (engine w) of
                     (Inl e, s) \<Rightarrow>
                       \<lparr>printed = [], outcome = Raised e, final = w\<lparr>engine := s\<rparr>\<rparr>
                   | (Inr _, s) \<Rightarrow>
                       \<lparr>printed = [], outcome = Returned,
                        final = \<lparr>engine = s, files = (files w)(output \<mapsto> s)\<rparr>\<rparr>))))"

text \<open>
  The exit status of the process where the script decides it: 0 after a normal return,
  the argument of \<^verbatim>\<open>sys.exit\<close> otherwise. After an uncaught exception the host decides.
\<close>

definition exit_status :: "outcome \<Rightarrow> nat option" where
  "exit_status r = (case r of Returned \<Rightarrow> Some 0 | Exited n \<Rightarrow> Some n | Raised e \<Rightarrow> None)"


text \<open>
  The engine never hands out an identifier twice: the next identifier is not the
  identifier of an object of the scene.
\<close>

definition fresh_id :: "scene \<Rightarrow> bool" where
  "fresh_id s = (next_id s \<notin> fst ` set (objects s))"



section \<open>Concrete inputs\<close>

text \<open>
  Inputs on which the model is run. \<open>startup_scene\<close> is an engine that already holds
  three objects, the first of them active; \<open>demo_lib\<close> stands for the library on a few
  command lines: it accepts exactly \<^verbatim>\<open>--output PATH --params TEXT\<close> and knows the
  payloads named below (any other text does not parse).
\<close>

definition empty_scene :: scene where
  "empty_scene =
     \<lparr>objects = [], next_id = 0, active = None, materials = [], camera = None,
      render = Map.empty\<rparr>"

definition plain_object :: "string \<Rightarrow> object" where
  "plain_object opn =
     \<lparr>created_by = opn, op_args = Map.empty, selected = False, obj_props = Map.empty,
      data_props = Map.empty, modifiers = [], material_slots = []\<rparr>"

definition startup_scene :: scene where
  "startup_scene =
     \<lparr>objects = [(0, plain_object ''mesh.primitive_cube_add''),
                 (1, plain_object ''object.light_add''),
                 (2, plain_object ''object.camera_add'')],
      next_id = 3, active = Some 0, materials = [], camera = Some 2, render = Map.empty\<rparr>"

definition startup_world :: world where
  "startup_world = \<lparr>engine = startup_scene, files = Map.empty\<rparr>"

definition material_of :: "string \<Rightarrow> pyval" where
  "material_of ty =
     PDict [(''color'', PList [PInt 1, PInt 0, PInt 0, PInt 1]),
            (''roughness'', PFloat (Finite (5 / 10))),
            (''type'', PStr ty)]"

definition geometry_of :: "string \<Rightarrow> int \<Rightarrow> bool \<Rightarrow> pyval" where
  "geometry_of ty sub wire =
     PDict [(''type'', PStr ty), (''subdivisions'', PInt sub), (''wireframe'', PBool wire)]"

definition transform_demo :: pyval where
  "transform_demo =
     PDict [(''rotation'', PList [PInt 0, PInt 0, PInt 0]), (''scale'', PFloat (Finite 2))]"

definition environment_demo :: pyval where
  "environment_demo =
     PDict [(''particleCount'', PInt 50),
            (''particleColor'', PList [PInt 0, PInt 1, PInt 1])]"

definition avatar_of :: "string \<Rightarrow> pyval \<Rightarrow> pyval" where
  "avatar_of mty geo =
     PDict [(''material'', material_of mty), (''geometry'', geo),
            (''transform'', transform_demo), (''environment'', environment_demo)]"

definition avatar_without_transform :: pyval where
  "avatar_without_transform =
     PDict [(''material'', material_of ''metallic''),
            (''geometry'', geometry_of ''pyramid'' 1 False),
            (''environment'', environment_demo)]"



definition demo_loads :: "string \<Rightarrow> pyval option" where
  "demo_loads txt =
     (if txt = ''SPHERE'' then Some (avatar_of ''metallic'' (geometry_of ''sphere'' 0 False))
      else if txt = ''PYRAMID'' then
        Some (avatar_of ''metallic'' (geometry_of ''pyramid'' 1 False))
      else if txt = ''PYRAMID-WIRE'' then
        Some (avatar_of ''metallic'' (geometry_of ''pyramid'' 1 True))
      else if txt = ''NO-TRANSFORM'' then Some avatar_without_transform
      else if txt = ''NO-MATERIAL'' then
        Some (PDict [(''geometry'', geometry_of ''sphere'' 0 False),
                     (''transform'', transform_demo), (''environment'', environment_demo)])
      else None)"

definition demo_parse_args :: "string list \<Rightarrow> nat + (string \<times> string)" where
  "demo_parse_args args =
     (case args of
        [a, p, b, j] \<Rightarrow> if a = ''--output'' \<and> b = ''--params'' then Inr (p, j) else Inl 2
      | _ \<Rightarrow> Inl 2)"

definition demo_lib :: stdlib where
  "demo_lib = \<lparr>parse_args = demo_parse_args, loads = demo_loads\<rparr>"

definition demo_argv :: "string \<Rightarrow> string \<Rightarrow> string list" where
  "demo_argv path payload =
     [''blender'', ''--background'', ''--python'', ''generate_avatar.py'', ''--'',
      ''--output'', path, ''--params'', payload]"

section \<open>Running the statements\<close>

lemmas monad_defs = py_bind_def py_then_def py_return_def py_raise_def lift_def act_def deref_def

lemma upd_at_0: "upd_at 0 f (x # xs) = f x # xs"
  by (simp add: upd_at_def)

lemma upd_at_Suc: "upd_at (Suc n) f (x # xs) = x # upd_at n f xs"
  by (simp add: upd_at_def)

lemma upd_at_append: "upd_at (length xs) f (xs @ x # ys) = xs @ f x # ys"
  by (simp add: upd_at_def nth_append)

lemma upd_at_append_Suc: "upd_at (Suc (length xs)) f (xs @ y # x # ys) = xs @ y # f x # ys"
  by (simp add: upd_at_def nth_append list_update_append)

lemmas mat_run = materials_new_def set_use_nodes_def nodes_clear_def links_new_def
  set_input_def nodes_new_def upd_mat_def upd_at_0 upd_at_Suc upd_at_append upd_at_append_Suc

lemma keys_set_selection: "fst ` set (set_selection b obs) = fst ` set obs"
  by (induction obs) (auto simp: set_selection_def)

lemma upd_assoc_added:
  "i \<notin> fst ` set obs \<Longrightarrow> upd_assoc i f (obs @ [(i, x)]) = obs @ [(i, f x)]"
  by (induction obs) (auto simp: upd_assoc_def)

lemma lookup_added: "i \<notin> fst ` set obs \<Longrightarrow> (m ++ map_of obs) i = m i"
  by (induction obs) (auto simp: map_add_def split: option.split)

lemma set_selection_Nil: "set_selection b [] = []"
  by (simp add: set_selection_def)

lemma set_selection_Cons:
  "set_selection b ((j, ob) # obs) = (j, ob\<lparr>selected := b\<rparr>) # set_selection b obs"
  by (simp add: set_selection_def)

lemma upd_assoc_Nil: "upd_assoc i f [] = []"
  by (simp add: upd_assoc_def)

lemma upd_assoc_Cons:
  "upd_assoc i f ((j, ob) # obs) =
     (if j = i then (j, f ob) else (j, ob)) # upd_assoc i f obs"
  by (simp add: upd_assoc_def)

lemmas obj_defs = add_object_def context_active_object_def modifiers_new_def
  modifier_named_def set_mod_prop_def set_psys_def set_obj_prop_def set_data_prop_def
  materials_append_def set_scene_camera_def set_render_def upd_obj_def

lemmas added_run = keys_set_selection upd_assoc_added lookup_added

lemmas list_run = set_selection_Nil set_selection_Cons upd_assoc_Nil upd_assoc_Cons

text \<open>Selecting everything and deleting the selection leaves no object.\<close>

lemma select_then_delete:
  "filter (\<lambda>(j, ob). \<not> selected ob) (set_selection True obs) = []"
  by (induction obs) (auto simp: set_selection_def)

lemma clean_scene_run:
  "clean_scene s = (Inr (), s\<lparr>objects := [], active := None, camera := None\<rparr>)"
  by (simp add: clean_scene_def select_all_def object_delete_def monad_defs
        select_then_delete still_there_def split: option.split)

lemma radians_135: "math_radians (PInt 135) = Inr (Radians (PInt 135))"
  by simp


lemma radians_60: "math_radians (PInt 60) = Inr (Radians (PInt 60))"
  by simp

lemmas build_run = build_scene_def clean_scene_run create_material_def create_geometry_def
  setup_lighting_def setup_camera_def create_particles_def monad_defs obj_defs list_run
  py_eq_str_def mat_run radians_135 radians_60

text \<open>With its three fields present, a material record always yields one new material.\<close>

lemma create_material_appends:
  assumes "subscript mp ''color'' = Inr c"
    and "subscript mp ''roughness'' = Inr r"
    and "subscript mp ''type'' = Inr t"
  shows "\<exists>ins. create_material mp s =
           (Inr (length (materials s)),
            s\<lparr>materials := materials s @
              [\<lparr>mat_name = ''AvatarMaterial'', use_nodes = True,
                nodes = [\<lparr>node_type = ''ShaderNodeOutputMaterial'', inputs = Map.empty\<rparr>,
                         \<lparr>node_type = ''ShaderNodeBsdfPrincipled'', inputs = ins\<rparr>],
                links = [((1, ''BSDF''), (0, ''Surface''))]\<rparr>]\<rparr>)"
  using assms
  by (simp add: create_material_def monad_defs mat_run py_eq_str_def)
     (intro conjI impI; rule exI; rule refl)

text \<open>A recognised type never yields \<^verbatim>\<open>None\<close>: the new object is the active one.\<close>

lemma recognised_builds:
  assumes "subscript gp ''type'' = Inr (PStr ty)"
    and "ty \<in> {''icosahedron'', ''torus'', ''cube'', ''sphere''}"
  shows "fst (create_geometry gp m s) \<noteq> Inr None"
  using assms
  by (auto simp add: create_geometry_def monad_defs obj_defs py_eq_str_def
        split: sum.splits option.splits prod.splits)

lemma recognised_not_none:
  assumes "create_geometry gp m s = (Inr None, s')"
    and "subscript gp ''type'' = Inr (PStr ty)"
    and "ty \<in> {''icosahedron'', ''torus'', ''cube'', ''sphere''}"
  shows False
  using recognised_builds [OF assms(2,3), of m s] assms(1) by simp

text \<open>What \<^verbatim>\<open>main\<close> does once the arguments and the payload have been parsed.\<close>

lemma main_after_parsing:
  assumes "''--'' \<in> set argv"
    and "parse_args lib (tl (dropWhile (\<lambda>a. a \<noteq> ''--'') argv)) = Inr (path, payload)"
    and "loads lib payload = Some params"
  shows "main lib argv w =
     (case build_scene params (engine w) of
        (Inl e, s) \<Rightarrow> \<lparr>printed = [], outcome = Raised e, final = w\<lparr>engine := s\<rparr>\<rparr>
      | (Inr _, s) \<Rightarrow>
          \<lparr>printed = [], outcome = Returned,
           final = \<lparr>engine = s, files = (files w)(path \<mapsto> s)\<rparr>\<rparr>)"
  using assms by (simp add: main_def)

lemma main_raises:
  assumes "''--'' \<in> set argv"
    and "parse_args lib (tl (dropWhile (\<lambda>a. a \<noteq> ''--'') argv)) = Inr (path, payload)"
    and "loads lib payload = Some params"
    and "fst (build_scene params (engine w)) = Inl e"
  shows "outcome (main lib argv w) = Raised e \<and> files (final (main lib argv w)) = files w"
  using assms(4)
  by (cases "build_scene params (engine w)") (simp add: main_after_parsing [OF assms(1,2,3)])

lemma main_returns:
  assumes "''--'' \<in> set argv"
    and "parse_args lib (tl (dropWhile (\<lambda>a. a \<noteq> ''--'') argv)) = Inr (path, payload)"
    and "loads lib payload = Some params"
    and "fst (build_scene params (engine w)) = Inr u"
  shows "outcome (main lib argv w) = Returned
         \<and> engine (final (main lib argv w)) = snd (build_scene params (engine w))
         \<and> files (final (main lib argv w)) =
             (files w)(path \<mapsto> snd (build_scene params (engine w)))"
  using assms(4)
  by (cases "build_scene params (engine w)") (simp add: main_after_parsing [OF assms(1,2,3)])


text \<open>A run that lacks a record it reads ends in an exception.\<close>

lemma build_scene_fails:
  assumes "map_of kvs ''material'' = None \<or> map_of kvs ''geometry'' = None
      \<or> map_of kvs ''environment'' = None
      \<or> (map_of kvs ''transform'' = None \<and>
          (\<exists>gp ty. map_of kvs ''geometry'' = Some gp \<and> subscript gp ''type'' = Inr (PStr ty)
             \<and> ty \<in> {''icosahedron'', ''torus'', ''cube'', ''sphere''}))"
  shows "\<exists>e. fst (build_scene (PDict kvs) s) = Inl e"
  using assms
  by (auto simp add: build_scene_def clean_scene_run monad_defs
       split: prod.splits sum.splits option.splits dest: recognised_not_none)

text \<open>
  The run for a type outside the four and a false \<^verbatim>\<open>wireframe\<close>: it completes, the
  scene holds the three lights, the camera, the emitter and the particle prototype and
  nothing else, the camera is the scene camera, and two materials have been added.
\<close>

lemma build_scene_without_body:
  assumes "subscript params ''material'' = Inr mp"
    and "subscript mp ''color'' = Inr c"
    and "subscript mp ''roughness'' = Inr r"
    and "subscript mp ''type'' = Inr t"
    and "subscript params ''geometry'' = Inr gp"
    and "subscript gp ''type'' = Inr gt"
    and "gt \<noteq> PStr ''icosahedron''" and "gt \<noteq> PStr ''torus''"
    and "gt \<noteq> PStr ''cube''" and "gt \<noteq> PStr ''sphere''"
    and "subscript gp ''wireframe'' = Inr wire"
    and "\<not> truthy wire"
    and "subscript params ''environment'' = Inr ep"
    and "subscript ep ''particleCount'' = Inr cnt"
    and "subscript ep ''particleColor'' = Inr pc"
    and "py_iter pc = Inr comps"
  shows "\<exists>st. build_scene params s = (Inr (), st)
          \<and> map (\<lambda>(i, ob). (i, created_by ob, op_args ob ''type'')) (objects st) =
              [(next_id s, ''object.light_add'', Some (Py (PStr ''AREA''))),
               (next_id s + 1, ''object.light_add'', Some (Py (PStr ''POINT''))),
               (next_id s + 2, ''object.light_add'', Some (Py (PStr ''SPOT''))),
               (next_id s + 3, ''object.camera_add'', None),
               (next_id s + 4, ''mesh.primitive_plane_add'', None),
               (next_id s + 5, ''mesh.primitive_ico_sphere_add'', None)]
          \<and> map (\<lambda>(i, ob). (created_by ob, material_slots ob)) (objects st) =
              [(''object.light_add'', []), (''object.light_add'', []),
               (''object.light_add'', []), (''object.camera_add'', []),
               (''mesh.primitive_plane_add'', []),
               (''mesh.primitive_ico_sphere_add'', [length (materials s) + 1])]
          \<and> camera st = Some (next_id s + 3)
          \<and> map mat_name (materials st) =
              map mat_name (materials s) @ [''AvatarMaterial'', ''ParticleMat'']"
proof -
  obtain ins where
    "create_material mp (s\<lparr>objects := [], active := None, camera := None\<rparr>) =
       (Inr (length (materials s)),
        s\<lparr>objects := [], active := None, camera := None,
          materials := materials s @
            [\<lparr>mat_name = ''AvatarMaterial'', use_nodes = True,
              nodes = [\<lparr>node_type = ''ShaderNodeOutputMaterial'', inputs = Map.empty\<rparr>,
                       \<lparr>node_type = ''ShaderNodeBsdfPrincipled'', inputs = ins\<rparr>],
              links = [((1, ''BSDF''), (0, ''Surface''))]\<rparr>]\<rparr>)"
    using create_material_appends
      [OF assms(2,3,4), of "s\<lparr>objects := [], active := None, camera := None\<rparr>"]
    by auto
  then show ?thesis
    using assms(1,5-16)
    by (simp add: build_scene_def clean_scene_run create_geometry_def setup_lighting_def
          setup_camera_def create_particles_def monad_defs obj_defs list_run py_eq_str_def
          mat_run radians_135 radians_60 del: math_radians.simps)
qed




subsection \<open>Statements that keep the avatar material\<close>
























subsection \<open>The concrete inputs\<close>

lemmas demo_defs = demo_lib_def demo_loads_def avatar_of_def avatar_without_transform_def
  material_of_def geometry_of_def transform_demo_def environment_demo_def
  startup_world_def startup_scene_def plain_object_def empty_scene_def

lemma no_transform_run: "fst (build_scene avatar_without_transform startup_scene) = Inr ()"
  by (simp add: build_run demo_defs del: math_radians.simps)


lemma pyramid_run:
  "fst (build_scene (avatar_of ''metallic'' (geometry_of ''pyramid'' 1 False)) startup_scene)
     = Inr ()"
  by (simp add: build_run demo_defs del: math_radians.simps)





lemma demo_separator: "''--'' \<in> set (demo_argv path payload)"
  by (simp add: demo_argv_def)

lemma fresh_startup: "fresh_id startup_scene"
  by (simp add: fresh_id_def startup_scene_def)

lemma startup_three: "next_id startup_scene = 3"
  by (simp add: startup_scene_def)

lemma demo_wireframe: "subscript (geometry_of ty n b) ''wireframe'' = Inr (PBool b)"
  by (simp add: geometry_of_def)

lemma demo_type: "subscript (geometry_of ty n b) ''type'' = Inr (PStr ty)"
  by (simp add: geometry_of_def)

lemma demo_subdivisions: "subscript (geometry_of ty n b) ''subdivisions'' = Inr (PInt n)"
  by (simp add: geometry_of_def)

lemma demo_args:
  "tl (dropWhile (\<lambda>a. a \<noteq> ''--'') (demo_argv path payload)) =
     [''--output'', path, ''--params'', payload]"
  by (simp add: demo_argv_def)

lemma demo_parse:
  "parse_args demo_lib (tl (dropWhile (\<lambda>a. a \<noteq> ''--'') (demo_argv path payload))) =
     Inr (path, payload)"
  by (simp add: demo_args demo_lib_def demo_parse_args_def)

section \<open>The command line\<close>

text \<open>
  C9. When the argument vector has no \<^verbatim>\<open>--\<close>, \<^verbatim>\<open>main\<close> prints one message and returns:
  the engine and the files are untouched, and the exit status is 0, not the status 1 of
  the \<^verbatim>\<open>sys.exit(1)\<close> that answers a payload that does not parse.
\<close>

theorem no_separator_returns:
  assumes "''--'' \<notin> set argv"
  shows "main lib argv w =
           \<lparr>printed = [''No arguments passed after --''], outcome = Returned, final = w\<rparr>
         \<and> exit_status (outcome (main lib argv w)) = Some 0"
  using assms by (simp add: main_def exit_status_def)

theorem no_separator_returns_witness:
  "''--'' \<notin> set [''blender'', ''--background'']
   \<and> main demo_lib [''blender'', ''--background''] startup_world =
       \<lparr>printed = [''No arguments passed after --''], outcome = Returned,
        final = startup_world\<rparr>
   \<and> exit_status (outcome (main demo_lib [''blender'', ''--background''] startup_world))
       = Some 0"
proof -
  have none: "''--'' \<notin> set [''blender'', ''--background'']"
    by simp
  show ?thesis
    by (rule conjI [OF none no_separator_returns [OF none, of demo_lib startup_world]])
qed

text \<open>
  C2. When the arguments after \<^verbatim>\<open>--\<close> are accepted and the payload does not parse as
  JSON, \<^verbatim>\<open>main\<close> prints the diagnostic and exits with status 1; the engine has not been
  touched (no scene operation has run) and no file has been written.
\<close>

theorem malformed_payload_exits:
  assumes "''--'' \<in> set argv"
    and "parse_args lib (tl (dropWhile (\<lambda>a. a \<noteq> ''--'') argv)) = Inr (path, payload)"
    and "loads lib payload = None"
  shows "main lib argv w =
           \<lparr>printed = [''Invalid JSON params''], outcome = Exited 1, final = w\<rparr>
         \<and> exit_status (outcome (main lib argv w)) = Some 1
         \<and> files (final (main lib argv w)) = files w"
  using assms by (simp add: main_def exit_status_def)

theorem malformed_payload_exits_witness:
  "''--'' \<in> set (demo_argv ''out.blend'' ''{oops'')
   \<and> loads demo_lib ''{oops'' = None
   \<and> main demo_lib (demo_argv ''out.blend'' ''{oops'') startup_world =
       \<lparr>printed = [''Invalid JSON params''], outcome = Exited 1, final = startup_world\<rparr>
   \<and> files (final (main demo_lib (demo_argv ''out.blend'' ''{oops'') startup_world))
         ''out.blend'' = None"
proof -
  have sep: "''--'' \<in> set (demo_argv ''out.blend'' ''{oops'')"
    by (simp add: demo_argv_def)
  have bad: "loads demo_lib ''{oops'' = None"
    by (simp add: demo_lib_def demo_loads_def)
  show ?thesis
    using malformed_payload_exits [OF sep demo_parse bad, of startup_world] sep bad
    by (simp add: startup_world_def)
qed

section \<open>Material synthesis\<close>

text \<open>
  C3. For a material record with \<^verbatim>\<open>type = "glass"\<close>, \<^verbatim>\<open>create_material\<close> returns a new
  material whose principled shader has Transmission 1.0 and Roughness 0.0: the roughness
  \<open>r\<close> of the input does not appear in the result.
\<close>

theorem glass_is_smooth_and_transmissive:
  assumes "subscript params ''color'' = Inr c"
    and "subscript params ''roughness'' = Inr r"
    and "subscript params ''type'' = Inr (PStr ''glass'')"
  shows "create_material params s =
           (Inr (length (materials s)),
            s\<lparr>materials := materials s @
              [\<lparr>mat_name = ''AvatarMaterial'', use_nodes = True,
                nodes = [\<lparr>node_type = ''ShaderNodeOutputMaterial'', inputs = Map.empty\<rparr>,
                         \<lparr>node_type = ''ShaderNodeBsdfPrincipled'',
                          inputs = [''Base Color'' \<mapsto> Py c,
                                    ''Transmission'' \<mapsto> Py (PFloat (Finite 1)),
                                    ''Roughness'' \<mapsto> Py (PFloat (Finite 0))]\<rparr>],
                links = [((1, ''BSDF''), (0, ''Surface''))]\<rparr>]\<rparr>)"
  using assms by (simp add: create_material_def monad_defs mat_run py_eq_str_def)

theorem glass_is_smooth_and_transmissive_witness:
  "subscript (material_of ''glass'') ''roughness'' = Inr (PFloat (Finite (5 / 10)))
   \<and> subscript (material_of ''glass'') ''type'' = Inr (PStr ''glass'')
   \<and> create_material (material_of ''glass'') empty_scene =
       (Inr 0,
        empty_scene\<lparr>materials :=
          [\<lparr>mat_name = ''AvatarMaterial'', use_nodes = True,
            nodes = [\<lparr>node_type = ''ShaderNodeOutputMaterial'', inputs = Map.empty\<rparr>,
                     \<lparr>node_type = ''ShaderNodeBsdfPrincipled'',
                      inputs = [''Base Color'' \<mapsto> Py (PList [PInt 1, PInt 0, PInt 0, PInt 1]),
                                ''Transmission'' \<mapsto> Py (PFloat (Finite 1)),
                                ''Roughness'' \<mapsto> Py (PFloat (Finite 0))]\<rparr>],
            links = [((1, ''BSDF''), (0, ''Surface''))]\<rparr>]\<rparr>)"
  using glass_is_smooth_and_transmissive
    [of "material_of ''glass''" "PList [PInt 1, PInt 0, PInt 0, PInt 1]"
        "PFloat (Finite (5 / 10))" empty_scene]
  by (simp add: material_of_def empty_scene_def)

text \<open>
  C8. For a material record whose \<^verbatim>\<open>type\<close> is any value other than the strings
  \<^verbatim>\<open>metallic\<close>, \<^verbatim>\<open>glass\<close> and \<^verbatim>\<open>emissive\<close>, \<^verbatim>\<open>create_material\<close> raises nothing and returns
  a new material whose principled shader has exactly two inputs set, the base colour and
  the roughness of the input: no Metallic, Transmission or Emission input.
\<close>

theorem other_type_is_plain:
  assumes "subscript params ''color'' = Inr c"
    and "subscript params ''roughness'' = Inr r"
    and "subscript params ''type'' = Inr t"
    and "t \<noteq> PStr ''metallic''" and "t \<noteq> PStr ''glass''" and "t \<noteq> PStr ''emissive''"
  shows "create_material params s =
           (Inr (length (materials s)),
            s\<lparr>materials := materials s @
              [\<lparr>mat_name = ''AvatarMaterial'', use_nodes = True,
                nodes = [\<lparr>node_type = ''ShaderNodeOutputMaterial'', inputs = Map.empty\<rparr>,
                         \<lparr>node_type = ''ShaderNodeBsdfPrincipled'',
                          inputs = [''Base Color'' \<mapsto> Py c, ''Roughness'' \<mapsto> Py r]\<rparr>],
                links = [((1, ''BSDF''), (0, ''Surface''))]\<rparr>]\<rparr>)"
  using assms by (simp add: create_material_def monad_defs mat_run py_eq_str_def)

theorem other_type_is_plain_witness:
  "subscript (material_of ''velvet'') ''type'' = Inr (PStr ''velvet'')
   \<and> create_material (material_of ''velvet'') empty_scene =
       (Inr 0,
        empty_scene\<lparr>materials :=
          [\<lparr>mat_name = ''AvatarMaterial'', use_nodes = True,
            nodes = [\<lparr>node_type = ''ShaderNodeOutputMaterial'', inputs = Map.empty\<rparr>,
                     \<lparr>node_type = ''ShaderNodeBsdfPrincipled'',
                      inputs = [''Base Color'' \<mapsto> Py (PList [PInt 1, PInt 0, PInt 0, PInt 1]),
                                ''Roughness'' \<mapsto> Py (PFloat (Finite (5 / 10)))]\<rparr>],
            links = [((1, ''BSDF''), (0, ''Surface''))]\<rparr>]\<rparr>)"
  using other_type_is_plain
    [of "material_of ''velvet''" "PList [PInt 1, PInt 0, PInt 0, PInt 1]"
        "PFloat (Finite (5 / 10))" "PStr ''velvet''" empty_scene]
  by (simp add: material_of_def empty_scene_def)

section \<open>Geometry\<close>

text \<open>
  C6. In an engine whose next identifier is unused, \<^verbatim>\<open>create_geometry\<close> returns the new
  object. For \<^verbatim>\<open>cube\<close> it is a cube added without arguments whose first modifier is a
  subdivision surface with \<^verbatim>\<open>levels\<close> equal to \<^verbatim>\<open>subdivisions\<close>; for \<^verbatim>\<open>icosahedron\<close>
  the value is the \<^verbatim>\<open>subdivisions\<close> argument of the operator and there is no
  subdivision modifier; for \<^verbatim>\<open>torus\<close> and \<^verbatim>\<open>sphere\<close> the operator has no argument and
  the result does not depend on \<^verbatim>\<open>subdivisions\<close>, which is not even read. The only other
  modifier is the wireframe one, when \<^verbatim>\<open>wireframe\<close> is true.
\<close>

theorem subdivisions_by_type:
  assumes "fresh_id s" and "subscript params ''wireframe'' = Inr wire"
  shows
    "(subscript params ''type'' = Inr (PStr ''cube'')
        \<and> subscript params ''subdivisions'' = Inr sub \<longrightarrow>
        create_geometry params mat s =
          (Inr (Some (next_id s)),
           s\<lparr>objects := set_selection False (objects s) @
               [(next_id s,
                 \<lparr>created_by = ''mesh.primitive_cube_add'', op_args = Map.empty,
                  selected = True, obj_props = Map.empty, data_props = Map.empty,
                  modifiers =
                    \<lparr>mod_name = ''Subsurf'', mod_type = ''SUBSURF'',
                     mod_props = [''levels'' \<mapsto> Py sub], psys_settings = Map.empty\<rparr> #
                    (if truthy wire then
                       [\<lparr>mod_name = ''Wireframe'', mod_type = ''WIREFRAME'',
                         mod_props = [''thickness'' \<mapsto> Py (PFloat (Finite (2 / 100)))],
                         psys_settings = Map.empty\<rparr>]
                     else []),
                  material_slots = [mat]\<rparr>)],
             next_id := Suc (next_id s), active := Some (next_id s)\<rparr>))
   \<and> (subscript params ''type'' = Inr (PStr ''icosahedron'')
        \<and> subscript params ''subdivisions'' = Inr sub \<longrightarrow>
        create_geometry params mat s =
          (Inr (Some (next_id s)),
           s\<lparr>objects := set_selection False (objects s) @
               [(next_id s,
                 \<lparr>created_by = ''mesh.primitive_ico_sphere_add'',
                  op_args = [''subdivisions'' \<mapsto> Py sub],
                  selected = True, obj_props = Map.empty, data_props = Map.empty,
                  modifiers =
                    (if truthy wire then
                       [\<lparr>mod_name = ''Wireframe'', mod_type = ''WIREFRAME'',
                         mod_props = [''thickness'' \<mapsto> Py (PFloat (Finite (2 / 100)))],
                         psys_settings = Map.empty\<rparr>]
                     else []),
                  material_slots = [mat]\<rparr>)],
             next_id := Suc (next_id s), active := Some (next_id s)\<rparr>))
   \<and> (subscript params ''type'' = Inr (PStr ''torus'')
        \<or> subscript params ''type'' = Inr (PStr ''sphere'') \<longrightarrow>
        create_geometry params mat s =
          (Inr (Some (next_id s)),
           s\<lparr>objects := set_selection False (objects s) @
               [(next_id s,
                 \<lparr>created_by =
                    (if subscript params ''type'' = Inr (PStr ''torus'')
                     then ''mesh.primitive_torus_add'' else ''mesh.primitive_uv_sphere_add''),
                  op_args = Map.empty,
                  selected = True, obj_props = Map.empty, data_props = Map.empty,
                  modifiers =
                    (if truthy wire then
                       [\<lparr>mod_name = ''Wireframe'', mod_type = ''WIREFRAME'',
                         mod_props = [''thickness'' \<mapsto> Py (PFloat (Finite (2 / 100)))],
                         psys_settings = Map.empty\<rparr>]
                     else []),
                  material_slots = [mat]\<rparr>)],
             next_id := Suc (next_id s), active := Some (next_id s)\<rparr>))"
  using assms
  by (auto simp add: create_geometry_def monad_defs obj_defs added_run py_eq_str_def
        fresh_id_def upd_at_0 upd_at_Suc)

theorem subdivisions_by_type_witness:
  "fresh_id startup_scene
   \<and> fst (create_geometry (geometry_of ''cube'' 2 False) 0 startup_scene) = Inr (Some 3)
   \<and> map (\<lambda>m. (mod_type m, mod_props m ''levels''))
        (modifiers (snd (last (objects
           (snd (create_geometry (geometry_of ''cube'' 2 False) 0 startup_scene))))))
       = [(''SUBSURF'', Some (Py (PInt 2)))]
   \<and> op_args (snd (last (objects
        (snd (create_geometry (geometry_of ''icosahedron'' 4 False) 0 startup_scene)))))
        ''subdivisions'' = Some (Py (PInt 4))
   \<and> modifiers (snd (last (objects
        (snd (create_geometry (geometry_of ''icosahedron'' 4 False) 0 startup_scene))))) = []
   \<and> create_geometry (geometry_of ''torus'' 4 False) 0 startup_scene =
       create_geometry (geometry_of ''torus'' 9 False) 0 startup_scene
   \<and> create_geometry (geometry_of ''sphere'' 4 False) 0 startup_scene =
       create_geometry
         (PDict [(''type'', PStr ''sphere''), (''wireframe'', PBool False)]) 0 startup_scene"
proof -
  note rule = subdivisions_by_type [OF fresh_startup]
  have bare: "subscript (PDict [(''type'', PStr ''sphere''), (''wireframe'', PBool False)])
      ''wireframe'' = Inr (PBool False)"
    by simp
  show ?thesis
    using fresh_startup
      rule [OF demo_wireframe, of "''cube''" 2 False "PInt 2" 0]
      rule [OF demo_wireframe, of "''icosahedron''" 4 False "PInt 4" 0]
      rule [OF demo_wireframe, of "''torus''" 4 False "PInt 4" 0]
      rule [OF demo_wireframe, of "''torus''" 9 False "PInt 9" 0]
      rule [OF demo_wireframe, of "''sphere''" 4 False "PInt 4" 0]
      rule [OF bare, of PNone 0]
    by (simp add: demo_type demo_subdivisions startup_three)
qed

text \<open>
  C4, as the code has it. For the four recognised types, a true \<^verbatim>\<open>wireframe\<close> makes the
  last modifier of the new object a wireframe modifier of thickness 0.02 (after the
  subdivision modifier of a cube).
\<close>

theorem wireframe_on_recognised_types:
  assumes "fresh_id s"
    and "subscript params ''type'' = Inr (PStr ty)"
    and "ty \<in> {''icosahedron'', ''torus'', ''cube'', ''sphere''}"
    and "ty \<in> {''icosahedron'', ''cube''} \<longrightarrow> subscript params ''subdivisions'' = Inr sub"
    and "subscript params ''wireframe'' = Inr wire"
    and "truthy wire"
  shows "\<exists>ob. fst (create_geometry params mat s) = Inr (Some (next_id s))
            \<and> map_of (objects (snd (create_geometry params mat s))) (next_id s) = Some ob
            \<and> modifiers ob \<noteq> []
            \<and> last (modifiers ob) =
                \<lparr>mod_name = ''Wireframe'', mod_type = ''WIREFRAME'',
                 mod_props = [''thickness'' \<mapsto> Py (PFloat (Finite (2 / 100)))],
                 psys_settings = Map.empty\<rparr>"
  using assms
  by (auto simp add: create_geometry_def monad_defs obj_defs added_run py_eq_str_def
        fresh_id_def upd_at_0 upd_at_Suc)

theorem wireframe_on_recognised_types_witness:
  "fresh_id startup_scene \<and> truthy (PBool True)
   \<and> (\<exists>ob. fst (create_geometry (geometry_of ''cube'' 2 True) 0 startup_scene) = Inr (Some 3)
        \<and> map_of (objects (snd (create_geometry (geometry_of ''cube'' 2 True) 0
              startup_scene))) 3 = Some ob
        \<and> map mod_name (modifiers ob) = [''Subsurf'', ''Wireframe'']
        \<and> mod_props (last (modifiers ob)) ''thickness''
            = Some (Py (PFloat (Finite (2 / 100)))))"
proof -
  have names: "map mod_name (modifiers (the (map_of
      (objects (snd (create_geometry (geometry_of ''cube'' 2 True) 0 startup_scene))) 3)))
      = [''Subsurf'', ''Wireframe'']"
    by (simp add: create_geometry_def monad_defs obj_defs list_run py_eq_str_def
          geometry_of_def startup_scene_def plain_object_def upd_at_0 upd_at_Suc)
  from wireframe_on_recognised_types
    [OF fresh_startup demo_type [of "''cube''" 2 True] _ _
        demo_wireframe [of "''cube''" 2 True], where sub = "PInt 2" and mat = 0]
  obtain ob where
    "fst (create_geometry (geometry_of ''cube'' 2 True) 0 startup_scene) = Inr (Some 3)"
    "map_of (objects (snd (create_geometry (geometry_of ''cube'' 2 True) 0
        startup_scene))) 3 = Some ob"
    "last (modifiers ob) =
       \<lparr>mod_name = ''Wireframe'', mod_type = ''WIREFRAME'',
        mod_props = [''thickness'' \<mapsto> Py (PFloat (Finite (2 / 100)))],
        psys_settings = Map.empty\<rparr>"
    by (auto simp add: startup_three demo_subdivisions)
  with names fresh_startup show ?thesis
    by simp
qed

text \<open>
  C4, as the claim states it, fails for a type outside the four: no object is active
  after the branch, and the access to its modifiers raises AttributeError.
\<close>

theorem wireframe_on_unknown_type_counterexample:
  "truthy (PBool True)
   \<and> subscript (geometry_of ''pyramid'' 1 True) ''wireframe'' = Inr (PBool True)
   \<and> create_geometry (geometry_of ''pyramid'' 1 True) 0 empty_scene =
       (Inl AttributeError, empty_scene)"
  by (simp add: create_geometry_def monad_defs obj_defs py_eq_str_def geometry_of_def
        empty_scene_def)

section \<open>The pipeline\<close>

text \<open>
  C1. The claim asks that a type outside the four leaves the run without an avatar body
  and lets it complete. With a true \<^verbatim>\<open>wireframe\<close> the code does not: after
  \<^verbatim>\<open>clean_scene\<close> no object is active, \<^verbatim>\<open>create_geometry\<close> reads the modifiers of
  \<^verbatim>\<open>None\<close>, and \<^verbatim>\<open>main\<close> ends with an uncaught AttributeError before the lights, the
  camera and the particles are built; no file is written.
\<close>

theorem unknown_type_with_wireframe_raises:
  assumes "''--'' \<in> set argv"
    and "parse_args lib (tl (dropWhile (\<lambda>a. a \<noteq> ''--'') argv)) = Inr (path, payload)"
    and "loads lib payload = Some params"
    and "subscript params ''material'' = Inr mp"
    and "subscript mp ''color'' = Inr c"
    and "subscript mp ''roughness'' = Inr r"
    and "subscript mp ''type'' = Inr t"
    and "subscript params ''geometry'' = Inr gp"
    and "subscript gp ''type'' = Inr gt"
    and "gt \<noteq> PStr ''icosahedron''" and "gt \<noteq> PStr ''torus''"
    and "gt \<noteq> PStr ''cube''" and "gt \<noteq> PStr ''sphere''"
    and "subscript gp ''wireframe'' = Inr wire"
    and "truthy wire"
  shows "outcome (main lib argv w) = Raised AttributeError
         \<and> files (final (main lib argv w)) = files w"
proof -
  obtain ins where
    "create_material mp ((engine w)\<lparr>objects := [], active := None, camera := None\<rparr>) =
       (Inr (length (materials (engine w))),
        (engine w)\<lparr>objects := [], active := None, camera := None,
          materials := materials (engine w) @
            [\<lparr>mat_name = ''AvatarMaterial'', use_nodes = True,
              nodes = [\<lparr>node_type = ''ShaderNodeOutputMaterial'', inputs = Map.empty\<rparr>,
                       \<lparr>node_type = ''ShaderNodeBsdfPrincipled'', inputs = ins\<rparr>],
              links = [((1, ''BSDF''), (0, ''Surface''))]\<rparr>]\<rparr>)"
    using create_material_appends
      [OF assms(5,6,7), of "(engine w)\<lparr>objects := [], active := None, camera := None\<rparr>"]
    by auto
  then have "fst (build_scene params (engine w)) = Inl AttributeError"
    using assms(4,8-15)
    by (simp add: build_scene_def clean_scene_run create_geometry_def monad_defs obj_defs
          py_eq_str_def)
  then show ?thesis
    by (rule main_raises [OF assms(1,2,3)])
qed

theorem unknown_type_with_wireframe_raises_witness:
  "loads demo_lib ''PYRAMID-WIRE'' =
     Some (avatar_of ''metallic'' (geometry_of ''pyramid'' 1 True))
   \<and> subscript (geometry_of ''pyramid'' 1 True) ''type'' = Inr (PStr ''pyramid'')
   \<and> subscript (geometry_of ''pyramid'' 1 True) ''wireframe'' = Inr (PBool True)
   \<and> outcome (main demo_lib (demo_argv ''out.blend'' ''PYRAMID-WIRE'') startup_world) =
       Raised AttributeError
   \<and> files (final (main demo_lib (demo_argv ''out.blend'' ''PYRAMID-WIRE'') startup_world))
       ''out.blend'' = None"
proof -
  have payload: "loads demo_lib ''PYRAMID-WIRE'' =
      Some (avatar_of ''metallic'' (geometry_of ''pyramid'' 1 True))"
    by (simp add: demo_lib_def demo_loads_def)
  have "outcome (main demo_lib (demo_argv ''out.blend'' ''PYRAMID-WIRE'') startup_world) =
          Raised AttributeError
        \<and> files (final (main demo_lib (demo_argv ''out.blend'' ''PYRAMID-WIRE'') startup_world))
            = files startup_world"
    by (rule unknown_type_with_wireframe_raises
          [OF demo_separator demo_parse payload,
           where mp = "material_of ''metallic''" and gp = "geometry_of ''pyramid'' 1 True"
             and wire = "PBool True" and gt = "PStr ''pyramid''"
             and c = "PList [PInt 1, PInt 0, PInt 0, PInt 1]"
             and r = "PFloat (Finite (5 / 10))" and t = "PStr ''metallic''"])
       (simp_all add: avatar_of_def material_of_def geometry_of_def)
  then show ?thesis
    using payload by (simp add: geometry_of_def startup_world_def)
qed

text \<open>
  C5, as the code has it. When the parameters are an object that lacks \<^verbatim>\<open>material\<close>,
  \<^verbatim>\<open>geometry\<close> or \<^verbatim>\<open>environment\<close>, or that lacks \<^verbatim>\<open>transform\<close> while the geometry type
  is one of the four recognised ones, \<^verbatim>\<open>main\<close> ends with an uncaught exception and the
  files are as they were: nothing is saved.
\<close>

theorem missing_record_is_fatal:
  assumes "''--'' \<in> set argv"
    and "parse_args lib (tl (dropWhile (\<lambda>a. a \<noteq> ''--'') argv)) = Inr (path, payload)"
    and "loads lib payload = Some (PDict kvs)"
    and "map_of kvs ''material'' = None \<or> map_of kvs ''geometry'' = None
      \<or> map_of kvs ''environment'' = None
      \<or> (map_of kvs ''transform'' = None \<and>
          (\<exists>gp ty. map_of kvs ''geometry'' = Some gp \<and> subscript gp ''type'' = Inr (PStr ty)
             \<and> ty \<in> {''icosahedron'', ''torus'', ''cube'', ''sphere''}))"
  shows "(\<exists>e. outcome (main lib argv w) = Raised e)
         \<and> files (final (main lib argv w)) = files w"
proof -
  obtain e where "fst (build_scene (PDict kvs) (engine w)) = Inl e"
    using build_scene_fails [OF assms(4)] by blast
  from main_raises [OF assms(1,2,3) this] show ?thesis
    by blast
qed

theorem missing_record_is_fatal_witness:
  "loads demo_lib ''NO-MATERIAL'' =
     Some (PDict [(''geometry'', geometry_of ''sphere'' 0 False),
                  (''transform'', transform_demo), (''environment'', environment_demo)])
   \<and> (\<exists>e. outcome (main demo_lib (demo_argv ''out.blend'' ''NO-MATERIAL'') startup_world)
           = Raised e)
   \<and> files (final (main demo_lib (demo_argv ''out.blend'' ''NO-MATERIAL'') startup_world))
       ''out.blend'' = None"
proof -
  have payload: "loads demo_lib ''NO-MATERIAL'' =
     Some (PDict [(''geometry'', geometry_of ''sphere'' 0 False),
                  (''transform'', transform_demo), (''environment'', environment_demo)])"
    by (simp add: demo_lib_def demo_loads_def)
  have "(\<exists>e. outcome (main demo_lib (demo_argv ''out.blend'' ''NO-MATERIAL'') startup_world)
            = Raised e)
     \<and> files (final (main demo_lib (demo_argv ''out.blend'' ''NO-MATERIAL'') startup_world))
         = files startup_world"
    by (rule missing_record_is_fatal [OF demo_separator demo_parse payload]) simp
  then show ?thesis
    using payload by (simp add: startup_world_def)
qed

text \<open>
  C5, as the claim states it, fails: parameters without \<^verbatim>\<open>transform\<close> and with a geometry
  type outside the four never read the transform; the run returns and the file is written.
\<close>

theorem missing_transform_counterexample:
  "loads demo_lib ''NO-TRANSFORM'' = Some avatar_without_transform
   \<and> subscript avatar_without_transform ''transform'' = Inl (KeyError ''transform'')
   \<and> outcome (main demo_lib (demo_argv ''out.blend'' ''NO-TRANSFORM'') startup_world)
       = Returned
   \<and> files (final (main demo_lib (demo_argv ''out.blend'' ''NO-TRANSFORM'') startup_world))
       ''out.blend'' \<noteq> None"
proof -
  have payload: "loads demo_lib ''NO-TRANSFORM'' = Some avatar_without_transform"
    by (simp add: demo_lib_def demo_loads_def)
  have engine: "engine startup_world = startup_scene"
    by (simp add: startup_world_def)
  have missing: "subscript avatar_without_transform ''transform'' = Inl (KeyError ''transform'')"
    by (simp add: avatar_without_transform_def)
  from main_returns [OF demo_separator demo_parse payload, of startup_world "()" "''out.blend''"]
    no_transform_run payload missing
  show ?thesis
    by (simp add: engine)
qed







end
